theory Spec2Isabelle
  imports Main
begin

section \<open>Data model\<close>

text \<open>
  The session layer of the services package: a \<open>SessionConnection\<close> object, the REST
  calls of \<open>restapi.ts\<close>, and the private registry functions. Objects are modelled
  by value and every method returns the object it was called on, as left by the call,
  next to its outcome. An outcome is \<open>Inr\<close> of the returned value or \<open>Inl\<close> of the
  thrown error; what a method had already changed when it threw stays changed.
\<close>

datatype error =
    TypeError
  | Error string
  | ResponseError nat "string option"
  | NetworkError
  | ValidationError
  | SyntaxError

record settings =
  baseUrl :: string

text \<open>\<open>Kernel.IModel\<close> and \<open>Session.IModel\<close>, the records sent by the server.\<close>

record kernel_model =
  k_id :: string
  k_name :: string

record session_model =
  m_id :: string
  m_path :: string
  m_type :: string
  m_name :: string
  m_kernel :: "kernel_model option"

text \<open>
  Modelled from the spec: the kernel connection (\<open>../kernel\<close>) is not part of the session
  sources. A handle exposes \<open>id\<close>, \<open>name\<close>, five signals and \<open>dispose()\<close>;
  \<open>kc_slots\<close> lists the signals of the handle that have a slot connected.
\<close>

record kernel_connection =
  kc_id :: string
  kc_name :: string
  kc_isDisposed :: bool
  kc_slots :: "string list"

definition kernel_dispose :: "kernel_connection \<Rightarrow> kernel_connection" where
  "kernel_dispose kc = kc\<lparr>kc_isDisposed := True\<rparr>"

type_synonym connector = "kernel_model \<Rightarrow> settings \<Rightarrow> kernel_connection"

text \<open>What the signals of a session have emitted, in the order of the \<open>emit\<close> calls.\<close>

datatype signal =
    Disposed
  | KernelChanged "kernel_connection option" "kernel_connection option"
  | PropertyChanged string

text \<open>
  The fields of \<open>SessionConnection\<close>. \<open>sc_connectToKernel\<close> is \<open>None\<close> when the
  options gave no connector (the field is then \<open>undefined\<close>); \<open>sc_kernel\<close> is \<open>None\<close>
  for a \<open>null\<close> kernel. \<open>sc_cleared\<close> records \<open>Signal.clearData(this)\<close>.
\<close>

record session_connection =
  sc_id :: string
  sc_path :: string
  sc_name :: string
  sc_type :: string
  sc_kernel :: "kernel_connection option"
  sc_isDisposed :: bool
  sc_updating :: bool
  sc_connectToKernel :: "connector option"
  serverSettings :: settings
  sc_emitted :: "signal list"
  sc_cleared :: bool

text \<open>
  \<open>Session.IOptions\<close> as the constructor receives it from \<open>clone\<close> and
  \<open>createSession\<close>: the path is always a string there.
\<close>

record ctor_options =
  c_path :: string
  c_type :: "string option"
  c_name :: "string option"
  c_serverSettings :: "settings option"
  c_connectToKernel :: "connector option"

text \<open>
  \<open>Session.IOptions\<close> as \<open>startNew\<close> may receive it at run time: every field may
  be \<open>undefined\<close>, the path included, which is what \<open>startNew\<close> tests.
\<close>

record start_options =
  so_path :: "string option"
  so_type :: "string option"
  so_name :: "string option"
  so_kernelName :: "string option"
  so_kernelId :: "string option"
  so_serverSettings :: "settings option"

section \<open>The session connection\<close>

text \<open>\<open>x || d\<close> on an optional string: \<open>undefined\<close> and the empty string are falsy.\<close>

definition or_default :: "string option \<Rightarrow> string \<Rightarrow> string" where
  "or_default x d = (case x of None \<Rightarrow> d | Some s \<Rightarrow> if s = [] then d else s)"

definition emit :: "signal \<Rightarrow> session_connection \<Rightarrow> session_connection" where
  "emit ev s = s\<lparr>sc_emitted := sc_emitted s @ [ev]\<rparr>"

definition proxied_signals :: "string list" where
  "proxied_signals =
     [''statusChanged'', ''connectionStatusChanged'', ''unhandledMessage'',
      ''iopubMessage'', ''anyMessage'']"

text \<open>
  \<open>setupKernel\<close>: a \<open>null\<close> model clears the kernel; otherwise the connector is
  called, and calling an \<open>undefined\<close> connector is a \<open>TypeError\<close>.
\<close>

definition setupKernel ::
  "kernel_model option \<Rightarrow> session_connection \<Rightarrow> (error + unit) \<times> session_connection" where
  "setupKernel model s =
     (case model of
        None \<Rightarrow> (Inr (), s\<lparr>sc_kernel := None\<rparr>)
      | Some km \<Rightarrow>
          (case sc_connectToKernel s of
             None \<Rightarrow> (Inl TypeError, s)
           | Some connect \<Rightarrow>
               let kc = connect km (serverSettings s)
               in (Inr (), s\<lparr>sc_kernel :=
                      Some (kc\<lparr>kc_slots := kc_slots kc @ proxied_signals\<rparr>)\<rparr>)))"

text \<open>
  The constructor; \<open>mk\<close> is the value of \<open>ServerConnection.makeSettings()\<close>. When
  \<open>setupKernel\<close> throws, no object is returned.
\<close>

definition new_SessionConnection ::
  "settings \<Rightarrow> ctor_options \<Rightarrow> string \<Rightarrow> kernel_model option \<Rightarrow> error + session_connection" where
  "new_SessionConnection mk options ident model =
     (let s = \<lparr>sc_id = ident,
                sc_path = c_path options,
                sc_name = or_default (c_name options) [],
                sc_type = or_default (c_type options) ''file'',
                sc_kernel = None,
                sc_isDisposed = False,
                sc_updating = False,
                sc_connectToKernel = c_connectToKernel options,
                serverSettings =
                  (case c_serverSettings options of None \<Rightarrow> mk | Some st \<Rightarrow> st),
                sc_emitted = [],
                sc_cleared = False\<rparr>
      in case setupKernel model s of
           (Inl e, _) \<Rightarrow> Inl e
         | (Inr _, s') \<Rightarrow> Inr s')"

text \<open>The \<open>model\<close> getter reads \<open>this.kernel.id\<close>: a \<open>TypeError\<close> on a null kernel.\<close>

definition model :: "session_connection \<Rightarrow> error + session_model" where
  "model s =
     (case sc_kernel s of
        None \<Rightarrow> Inl TypeError
      | Some kc \<Rightarrow>
          Inr \<lparr>m_id = sc_id s,
               m_path = sc_path s,
               m_type = sc_type s,
               m_name = sc_name s,
               m_kernel = Some \<lparr>k_id = kc_id kc, k_name = kc_name kc\<rparr>\<rparr>)"

text \<open>\<open>clone\<close> evaluates \<open>this.kernel.id\<close> for the third argument before constructing.\<close>

definition clone :: "settings \<Rightarrow> session_connection \<Rightarrow> error + session_connection" where
  "clone mk s =
     (case sc_kernel s of
        None \<Rightarrow> Inl TypeError
      | Some kc \<Rightarrow>
          new_SessionConnection mk
            \<lparr>c_path = sc_path s,
             c_type = Some (sc_type s),
             c_name = Some (sc_name s),
             c_serverSettings = Some (serverSettings s),
             c_connectToKernel = sc_connectToKernel s\<rparr>
            (sc_id s)
            (Some \<lparr>k_id = kc_id kc, k_name = kc_name kc\<rparr>))"

definition handleModelChange :: "session_model \<Rightarrow> session_connection \<Rightarrow> session_connection" where
  "handleModelChange oldModel s =
     (let s1 = (if m_name oldModel \<noteq> sc_name s then emit (PropertyChanged ''name'') s else s);
          s2 = (if m_type oldModel \<noteq> sc_type s1 then emit (PropertyChanged ''type'') s1 else s1)
      in if m_path oldModel \<noteq> sc_path s2 then emit (PropertyChanged ''path'') s2 else s2)"

text \<open>The condition of \<open>update\<close> under which the kernel is replaced.\<close>

definition kernel_differs :: "kernel_connection option \<Rightarrow> kernel_model option \<Rightarrow> bool" where
  "kernel_differs k mk =
     (case (k, mk) of
        (None, Some _) \<Rightarrow> True
      | (Some _, None) \<Rightarrow> True
      | (Some kc, Some km) \<Rightarrow> kc_id kc \<noteq> k_id km
      | (None, None) \<Rightarrow> False)"

definition update ::
  "session_model \<Rightarrow> session_connection \<Rightarrow> (error + unit) \<times> session_connection" where
  "update m s =
     (if sc_updating s then (Inr (), s)
      else
        case model s of
          Inl e \<Rightarrow> (Inl e, s)
        | Inr oldModel \<Rightarrow>
            let s1 = s\<lparr>sc_path := m_path m, sc_name := m_name m, sc_type := m_type m\<rparr>
            in if kernel_differs (sc_kernel s1) (m_kernel m) then
                 let s2 = (case sc_kernel s1 of
                             None \<Rightarrow> s1
                           | Some kc \<Rightarrow> s1\<lparr>sc_kernel := Some (kernel_dispose kc)\<rparr>);
                     oldValue = sc_kernel s2
                 in case setupKernel (m_kernel m) s2 of
                      (Inl e, s3) \<Rightarrow> (Inl e, s3)
                    | (Inr _, s3) \<Rightarrow>
                        (Inr (),
                         handleModelChange oldModel
                           (emit (KernelChanged oldValue (sc_kernel s3)) s3))
               else (Inr (), handleModelChange oldModel s1))"

text \<open>
  \<open>dispose\<close>: the flag is set and \<open>disposed\<close> emitted before \<open>this._kernel.dispose()\<close>,
  which throws on a null kernel; \<open>Signal.clearData\<close> comes last.
\<close>

definition dispose :: "session_connection \<Rightarrow> (error + unit) \<times> session_connection" where
  "dispose s =
     (if sc_isDisposed s then (Inr (), s)
      else
        let s1 = emit Disposed (s\<lparr>sc_isDisposed := True\<rparr>)
        in case sc_kernel s1 of
             None \<Rightarrow> (Inl TypeError, s1)
           | Some kc \<Rightarrow>
               (Inr (), s1\<lparr>sc_kernel := Some (kernel_dispose kc), sc_cleared := True\<rparr>))"

section \<open>The REST calls of restapi.ts\<close>

text \<open>
  Modelled from the spec: \<open>ServerConnection.makeRequest\<close>, the \<open>Response\<close> it
  resolves to, \<open>URLExt.join\<close> and \<open>validateModel\<close> are not part of the session
  sources. A request is kept as its method, the parts of its URL and the value handed to
  \<open>JSON.stringify\<close>; a response is its status and its body. The body is a
  session record, another JSON value that is not \<open>null\<close> (kept as its \<open>message\<close>
  property, if it has one), the JSON value \<open>null\<close>, or text that is not JSON, for
  which \<open>response.json()\<close> rejects. The server is a parameter: \<open>server\<close> answers
  a request, \<open>None\<close> when the request fails on the network. \<open>requests\<close> and
  \<open>warnings\<close> log the requests made and the \<open>console.warn\<close> calls.
\<close>

record partial_kernel_model =
  pk_id :: "string option"
  pk_name :: "string option"

datatype payload =
    PathPayload string
  | NamePayload string
  | TypePayload string
  | KernelPayload partial_kernel_model
  | CreatePayload "string option" "string option" "string option" string string

record request =
  r_method :: string
  r_url :: "string list"
  r_body :: "payload option"

datatype json_data =
    JModel session_model
  | JObject "string option"
  | JNull
  | JUnparsable

record response =
  rs_status :: nat
  rs_json :: json_data

record env =
  server :: "request \<Rightarrow> response option"
  makeSettings :: settings
  requests :: "request list"
  warnings :: "string list"

definition SESSION_SERVICE_URL :: string where
  "SESSION_SERVICE_URL = ''api/sessions''"

definition makeRequest ::
  "string list \<Rightarrow> string \<Rightarrow> payload option \<Rightarrow> env \<Rightarrow> (error + response) \<times> env" where
  "makeRequest url method body e =
     (let req = \<lparr>r_method = method, r_url = url, r_body = body\<rparr>;
          e' = e\<lparr>requests := requests e @ [req]\<rparr>
      in case server e req of
           None \<Rightarrow> (Inl NetworkError, e')
         | Some r \<Rightarrow> (Inr r, e'))"

text \<open>\<open>await response.json()\<close>: a body that is not JSON rejects with a \<open>SyntaxError\<close>.\<close>

definition response_json :: "response \<Rightarrow> error + json_data" where
  "response_json r = (case rs_json r of JUnparsable \<Rightarrow> Inl SyntaxError | d \<Rightarrow> Inr d)"

definition validateModel :: "json_data \<Rightarrow> error + session_model" where
  "validateModel d = (case d of JModel m \<Rightarrow> Inr m | _ \<Rightarrow> Inl ValidationError)"

definition getSessionUrl :: "string \<Rightarrow> string \<Rightarrow> string list" where
  "getSessionUrl base ident = [base, SESSION_SERVICE_URL, ident]"

definition or_makeSettings :: "settings option \<Rightarrow> env \<Rightarrow> settings" where
  "or_makeSettings st e = (case st of None \<Rightarrow> makeSettings e | Some x \<Rightarrow> x)"

definition missing_message :: "string \<Rightarrow> string" where
  "missing_message ident =
     ''The session '' @ [CHR 0x22] @ ident @ [CHR 0x22, CHR 0x22] @
     '' does not exist on the server''"

definition shutdownSession :: "string \<Rightarrow> settings option \<Rightarrow> env \<Rightarrow> (error + unit) \<times> env" where
  "shutdownSession ident st e =
     (let url = getSessionUrl (baseUrl (or_makeSettings st e)) ident
      in case makeRequest url ''DELETE'' None e of
           (Inl err, e') \<Rightarrow> (Inl err, e')
         | (Inr response, e') \<Rightarrow>
             if rs_status response = 404 then
               (case response_json response of
                  Inl err \<Rightarrow> (Inl err, e')
                | Inr JNull \<Rightarrow> (Inl TypeError, e')
                | Inr data \<Rightarrow>
                    let msg = (case data of
                                 JObject (Some m) \<Rightarrow>
                                   if m = [] then missing_message ident else m
                               | _ \<Rightarrow> missing_message ident)
                    in (Inr (), e'\<lparr>warnings := warnings e' @ [msg]\<rparr>))
             else if rs_status response = 410 then
               (Inl (ResponseError (rs_status response)
                       (Some ''The kernel was deleted but the session was not'')), e')
             else if rs_status response \<noteq> 204 then
               (Inl (ResponseError (rs_status response) None), e')
             else (Inr (), e'))"

definition startSession :: "start_options \<Rightarrow> env \<Rightarrow> (error + session_model) \<times> env" where
  "startSession options e =
     (let settings = or_makeSettings (so_serverSettings options) e;
          body = CreatePayload (so_kernelName options) (so_kernelId options)
                   (so_path options)
                   (or_default (so_type options) [])
                   (or_default (so_name options) []);
          url = [baseUrl settings, SESSION_SERVICE_URL]
      in case makeRequest url ''POST'' (Some body) e of
           (Inl err, e') \<Rightarrow> (Inl err, e')
         | (Inr response, e') \<Rightarrow>
             if rs_status response \<noteq> 201 then
               (Inl (ResponseError (rs_status response) None), e')
             else
               (case response_json response of
                  Inl err \<Rightarrow> (Inl err, e')
                | Inr data \<Rightarrow> (validateModel data, e')))"

definition updateSession ::
  "string \<Rightarrow> payload \<Rightarrow> settings option \<Rightarrow> env \<Rightarrow> (error + session_model) \<times> env" where
  "updateSession ident body st e =
     (let url = getSessionUrl (baseUrl (or_makeSettings st e)) ident
      in case makeRequest url ''PATCH'' (Some body) e of
           (Inl err, e') \<Rightarrow> (Inl err, e')
         | (Inr response, e') \<Rightarrow>
             if rs_status response \<noteq> 200 then
               (Inl (ResponseError (rs_status response) None), e')
             else
               (case response_json response of
                  Inl err \<Rightarrow> (Inl err, e')
                | Inr data \<Rightarrow> (validateModel data, e')))"

section \<open>The operations that PATCH\<close>

text \<open>
  An \<open>async\<close> method is modelled run to completion, the server's answer taken from
  \<open>server\<close>. \<open>_patch\<close> sets the flag, awaits \<open>updateSession\<close> and clears the flag
  in its \<open>finally\<close>, whether the call returned or threw; it returns the record.
\<close>

definition patch ::
  "payload \<Rightarrow> session_connection \<Rightarrow> env \<Rightarrow>
     (error + session_model) \<times> session_connection \<times> env" where
  "patch body s e =
     (let s1 = s\<lparr>sc_updating := True\<rparr>
      in case updateSession (sc_id s1) body (Some (serverSettings s1)) e of
           (r, e') \<Rightarrow> (r, s1\<lparr>sc_updating := False\<rparr>, e'))"

definition setPath ::
  "string \<Rightarrow> session_connection \<Rightarrow> env \<Rightarrow> (error + unit) \<times> session_connection \<times> env" where
  "setPath p s e =
     (if sc_isDisposed s then (Inl (Error ''Session is disposed''), s, e)
      else case patch (PathPayload p) s e of
             (Inl err, s', e') \<Rightarrow> (Inl err, s', e')
           | (Inr _, s', e') \<Rightarrow> (Inr (), s', e'))"

definition setName ::
  "string \<Rightarrow> session_connection \<Rightarrow> env \<Rightarrow> (error + unit) \<times> session_connection \<times> env" where
  "setName n s e =
     (if sc_isDisposed s then (Inl (Error ''Session is disposed''), s, e)
      else case patch (NamePayload n) s e of
             (Inl err, s', e') \<Rightarrow> (Inl err, s', e')
           | (Inr _, s', e') \<Rightarrow> (Inr (), s', e'))"

definition setType ::
  "string \<Rightarrow> session_connection \<Rightarrow> env \<Rightarrow> (error + unit) \<times> session_connection \<times> env" where
  "setType t s e =
     (if sc_isDisposed s then (Inl (Error ''Session is disposed''), s, e)
      else case patch (TypePayload t) s e of
             (Inl err, s', e') \<Rightarrow> (Inl err, s', e')
           | (Inr _, s', e') \<Rightarrow> (Inr (), s', e'))"

text \<open>
  \<open>changeKernel\<close> calls \<open>this.kernel.dispose()\<close> before \<open>_patch\<close> and returns
  \<open>this.kernel\<close> after it.
\<close>

definition changeKernel ::
  "partial_kernel_model \<Rightarrow> session_connection \<Rightarrow> env \<Rightarrow>
     (error + kernel_connection option) \<times> session_connection \<times> env" where
  "changeKernel options s e =
     (if sc_isDisposed s then (Inl (Error ''Session is disposed''), s, e)
      else
        case sc_kernel s of
          None \<Rightarrow> (Inl TypeError, s, e)
        | Some kc \<Rightarrow>
            let s1 = s\<lparr>sc_kernel := Some (kernel_dispose kc)\<rparr>
            in case patch (KernelPayload options) s1 e of
                 (Inl err, s2, e') \<Rightarrow> (Inl err, s2, e')
               | (Inr _, s2, e') \<Rightarrow> (Inr (sc_kernel s2), s2, e'))"

definition shutdown ::
  "session_connection \<Rightarrow> env \<Rightarrow> (error + unit) \<times> session_connection \<times> env" where
  "shutdown s e =
     (if sc_isDisposed s then (Inl (Error ''Session is disposed''), s, e)
      else case shutdownSession (sc_id s) (Some (serverSettings s)) e of
             (r, e') \<Rightarrow> (r, s, e'))"

section \<open>The registry\<close>

text \<open>
  \<open>runningSessions\<close> is used by the private functions and declared nowhere in the
  sources; it is a parameter here: a map from a base URL to the connections tracked
  there. The tracked connections are held by value, so one object is one entry.
\<close>

type_synonym registry = "string \<rightharpoonup> session_connection list"

definition running_at :: "registry \<Rightarrow> string \<Rightarrow> session_connection list" where
  "running_at reg url = (case reg url of None \<Rightarrow> [] | Some xs \<Rightarrow> xs)"

text \<open>\<open>createSession\<close> passes options without \<open>connectToKernel\<close>.\<close>

definition createSession ::
  "settings \<Rightarrow> session_model \<Rightarrow> settings option \<Rightarrow> error + session_connection" where
  "createSession mk m st =
     new_SessionConnection mk
       \<lparr>c_path = m_path m,
        c_type = Some (m_type m),
        c_name = Some (m_name m),
        c_serverSettings = Some (case st of None \<Rightarrow> mk | Some x \<Rightarrow> x),
        c_connectToKernel = None\<rparr>
       (m_id m)
       (m_kernel m)"

definition connectTo ::
  "settings \<Rightarrow> registry \<Rightarrow> session_model \<Rightarrow> settings option \<Rightarrow> error + session_connection" where
  "connectTo mk reg m st =
     (let settings = (case st of None \<Rightarrow> mk | Some x \<Rightarrow> x);
          running = running_at reg (baseUrl settings)
      in case find (\<lambda>v. sc_id v = m_id m) running of
           Some session \<Rightarrow> clone mk session
         | None \<Rightarrow> createSession mk m (Some settings))"

definition startNew :: "start_options \<Rightarrow> env \<Rightarrow> (error + session_connection) \<times> env" where
  "startNew options e =
     (case so_path options of
        None \<Rightarrow> (Inl (Error ''Must specify a path''), e)
      | Some _ \<Rightarrow>
          (case startSession options e of
             (Inl err, e') \<Rightarrow> (Inl err, e')
           | (Inr m, e') \<Rightarrow>
               (createSession (makeSettings e') m (so_serverSettings options), e')))"

text \<open>
  \<open>each(xs, fn)\<close> calls \<open>fn\<close> on every element in order; a throw ends the loop and
  leaves the rest untouched. The callbacks here return nothing, so the loop never
  breaks early.
\<close>

fun each ::
  "('a \<Rightarrow> (error + unit) \<times> 'a) \<Rightarrow> 'a list \<Rightarrow> (error + unit) \<times> 'a list" where
  "each fn [] = (Inr (), [])"
| "each fn (x # xs) =
     (case fn x of
        (Inl e, x') \<Rightarrow> (Inl e, x' # xs)
      | (Inr _, x') \<Rightarrow> (case each fn xs of (r, xs') \<Rightarrow> (r, x' # xs')))"

text \<open>
  The \<open>find\<close> of \<open>updateRunningSessions\<close>: its callback updates the session with
  the first record of the same id and stops the search there.
\<close>

fun find_and_update ::
  "session_model list \<Rightarrow> session_connection \<Rightarrow>
     (error + session_model option) \<times> session_connection" where
  "find_and_update [] session = (Inr None, session)"
| "find_and_update (sId # rest) session =
     (if sc_id session = m_id sId then
        (case update sId session of
           (Inl e, session') \<Rightarrow> (Inl e, session')
         | (Inr _, session') \<Rightarrow> (Inr (Some sId), session'))
      else find_and_update rest session)"

definition reconcile_one ::
  "session_model list \<Rightarrow> session_connection \<Rightarrow> (error + unit) \<times> session_connection" where
  "reconcile_one sessions session =
     (case find_and_update sessions session of
        (Inl e, session') \<Rightarrow> (Inl e, session')
      | (Inr updated, session') \<Rightarrow>
          if updated = None \<and> sc_isDisposed session' \<noteq> True then dispose session'
          else (Inr (), session'))"

text \<open>
  The loop runs over \<open>running.slice()\<close>, the tracked list as it was on entry. The
  objects it changes are the tracked ones, so the registry shows them as changed; with
  no array at \<open>baseUrl\<close> the loop runs over a fresh empty array.
\<close>

definition updateRunningSessions ::
  "session_model list \<Rightarrow> string \<Rightarrow> registry \<Rightarrow> (error + session_model list) \<times> registry" where
  "updateRunningSessions sessions url reg =
     (case reg url of
        None \<Rightarrow> (Inr sessions, reg)
      | Some running \<Rightarrow>
          (case each (reconcile_one sessions) running of
             (Inl e, running') \<Rightarrow> (Inl e, reg(url \<mapsto> running'))
           | (Inr _, running') \<Rightarrow> (Inr sessions, reg(url \<mapsto> running'))))"

definition updateFromServer ::
  "session_model \<Rightarrow> string \<Rightarrow> registry \<Rightarrow> (error + session_model) \<times> registry" where
  "updateFromServer m url reg =
     (case reg url of
        None \<Rightarrow> (Inr m, reg)
      | Some running \<Rightarrow>
          (case each (\<lambda>session. if sc_id session = m_id m then update m session
                                 else (Inr (), session)) running of
             (Inl e, running') \<Rightarrow> (Inl e, reg(url \<mapsto> running'))
           | (Inr _, running') \<Rightarrow> (Inr m, reg(url \<mapsto> running'))))"

section \<open>Requests and results named in the properties\<close>


definition create_request :: "start_options \<Rightarrow> env \<Rightarrow> request" where
  "create_request options e =
     \<lparr>r_method = ''POST'',
      r_url = [baseUrl (or_makeSettings (so_serverSettings options) e), ''api/sessions''],
      r_body = Some (CreatePayload (so_kernelName options) (so_kernelId options)
                       (so_path options)
                       (or_default (so_type options) [])
                       (or_default (so_name options) []))\<rparr>"

text \<open>A fresh connection for record \<open>m\<close> with a null kernel and no connector.\<close>

definition null_kernel_connection :: "session_model \<Rightarrow> settings \<Rightarrow> session_connection" where
  "null_kernel_connection m st =
     \<lparr>sc_id = m_id m, sc_path = m_path m, sc_name = m_name m,
      sc_type = (if m_type m = [] then ''file'' else m_type m),
      sc_kernel = None, sc_isDisposed = False, sc_updating = False,
      sc_connectToKernel = None, serverSettings = st,
      sc_emitted = [], sc_cleared = False\<rparr>"

text \<open>
  The property-changed events owed when record \<open>m\<close> is applied to connection \<open>s\<close>:
  one for each of name, type and path that differs, in that order.
\<close>

definition property_changes :: "session_connection \<Rightarrow> session_model \<Rightarrow> signal list" where
  "property_changes s m =
     (if sc_name s \<noteq> m_name m then [PropertyChanged ''name''] else []) @
     (if sc_type s \<noteq> m_type m then [PropertyChanged ''type''] else []) @
     (if sc_path s \<noteq> m_path m then [PropertyChanged ''path''] else [])"

text \<open>
  Reconciliation of one tracked connection in the words of the specification: update it
  with the first record of its id, or dispose it when there is none and it is not yet
  disposed.
\<close>

definition reconciled :: "session_model list \<Rightarrow> session_connection \<Rightarrow> session_connection" where
  "reconciled sessions s =
     (case find (\<lambda>r. sc_id s = m_id r) sessions of
        Some r \<Rightarrow> snd (update r s)
      | None \<Rightarrow> if sc_isDisposed s then s else snd (dispose s))"

section \<open>Concrete sessions, records and servers\<close>

definition ex_settings :: settings where
  "ex_settings = \<lparr>baseUrl = ''http://localhost:8888/''\<rparr>"

text \<open>A connector that builds a live handle with the identity it is given.\<close>

definition ex_connector :: connector where
  "ex_connector km st =
     \<lparr>kc_id = k_id km, kc_name = k_name km, kc_isDisposed = False, kc_slots = []\<rparr>"

definition ex_options :: ctor_options where
  "ex_options =
     \<lparr>c_path = ''a.ipynb'', c_type = Some ''notebook'', c_name = Some ''a'',
      c_serverSettings = Some ex_settings, c_connectToKernel = Some ex_connector\<rparr>"

text \<open>What the constructor builds for session \<open>s1\<close> with kernel \<open>k1\<close>.\<close>

definition ex_kernel :: kernel_connection where
  "ex_kernel =
     \<lparr>kc_id = ''k1'', kc_name = ''python3'', kc_isDisposed = False,
      kc_slots = proxied_signals\<rparr>"

definition ex_session :: session_connection where
  "ex_session =
     \<lparr>sc_id = ''s1'', sc_path = ''a.ipynb'', sc_name = ''a'', sc_type = ''notebook'',
      sc_kernel = Some ex_kernel, sc_isDisposed = False, sc_updating = False,
      sc_connectToKernel = Some ex_connector, serverSettings = ex_settings,
      sc_emitted = [], sc_cleared = False\<rparr>"

text \<open>What the constructor builds for session \<open>s0\<close> with a null kernel.\<close>

definition ex_null_session :: session_connection where
  "ex_null_session =
     \<lparr>sc_id = ''s0'', sc_path = ''a.ipynb'', sc_name = ''a'', sc_type = ''notebook'',
      sc_kernel = None, sc_isDisposed = False, sc_updating = False,
      sc_connectToKernel = Some ex_connector, serverSettings = ex_settings,
      sc_emitted = [], sc_cleared = False\<rparr>"

text \<open>The record of session \<open>s1\<close> after a rename and a change of kernel.\<close>

definition ex_record :: session_model where
  "ex_record =
     \<lparr>m_id = ''s1'', m_path = ''b.ipynb'', m_type = ''console'', m_name = ''b'',
      m_kernel = Some \<lparr>k_id = ''k2'', k_name = ''python3''\<rparr>\<rparr>"

text \<open>Records of session \<open>s0\<close>: renamed, and unchanged but for a kernel.\<close>

definition ex_record_renamed :: session_model where
  "ex_record_renamed =
     \<lparr>m_id = ''s0'', m_path = ''b.ipynb'', m_type = ''console'', m_name = ''b'',
      m_kernel = None\<rparr>"

definition ex_record_kernel :: session_model where
  "ex_record_kernel =
     \<lparr>m_id = ''s0'', m_path = ''a.ipynb'', m_type = ''notebook'', m_name = ''a'',
      m_kernel = Some \<lparr>k_id = ''k1'', k_name = ''python3''\<rparr>\<rparr>"

definition ex_record_null :: session_model where
  "ex_record_null =
     \<lparr>m_id = ''s2'', m_path = ''c.ipynb'', m_type = [], m_name = ''c'',
      m_kernel = None\<rparr>"

text \<open>
  A server that answers a PATCH with 200 and \<open>ex_record\<close>, a POST with 201 and
  \<open>ex_record_null\<close>, and a DELETE with 404 and a message.
\<close>

definition ex_server :: "request \<Rightarrow> response option" where
  "ex_server req =
     (if r_method req = ''PATCH'' then Some \<lparr>rs_status = 200, rs_json = JModel ex_record\<rparr>
      else if r_method req = ''POST'' then
        Some \<lparr>rs_status = 201, rs_json = JModel ex_record_null\<rparr>
      else Some \<lparr>rs_status = 404, rs_json = JObject (Some ''Session not found'')\<rparr>)"

definition ex_env :: env where
  "ex_env =
     \<lparr>server = ex_server, makeSettings = ex_settings, requests = [], warnings = []\<rparr>"

definition ex_start_options :: start_options where
  "ex_start_options =
     \<lparr>so_path = Some [], so_type = None, so_name = None, so_kernelName = None,
      so_kernelId = None, so_serverSettings = None\<rparr>"

text \<open>Two tracked connections at one endpoint, the first with a null kernel.\<close>

definition ex_registry :: registry where
  "ex_registry = [''http://localhost:8888/'' \<mapsto> [ex_null_session, ex_session]]"



definition ex_server_kernel :: "request \<Rightarrow> response option" where
  "ex_server_kernel req = Some \<lparr>rs_status = 201, rs_json = JModel ex_record\<rparr>"

section \<open>Unfolding rules\<close>

lemmas session_defs = update_def model_def setupKernel_def handleModelChange_def emit_def
  kernel_differs_def kernel_dispose_def dispose_def clone_def new_SessionConnection_def
  or_default_def

lemmas rest_defs = makeRequest_def validateModel_def response_json_def getSessionUrl_def
  or_makeSettings_def
  updateSession_def startSession_def shutdownSession_def SESSION_SERVICE_URL_def patch_def

lemmas ex_defs = ex_settings_def ex_connector_def ex_options_def ex_kernel_def ex_session_def
  ex_null_session_def ex_record_def ex_record_renamed_def ex_record_kernel_def
  ex_record_null_def ex_server_def ex_env_def ex_start_options_def ex_registry_def

section \<open>The examples are what the constructor builds\<close>

lemma ex_session_constructed:
  "new_SessionConnection ex_settings ex_options ''s1''
     (Some \<lparr>k_id = ''k1'', k_name = ''python3''\<rparr>) = Inr ex_session"
  by (simp add: new_SessionConnection_def setupKernel_def or_default_def ex_defs)

lemma ex_null_session_constructed:
  "new_SessionConnection ex_settings ex_options ''s0'' None = Inr ex_null_session"
  by (simp add: new_SessionConnection_def setupKernel_def or_default_def ex_defs)

section \<open>What the operations do on every input\<close>

text \<open>
  \<open>_patch\<close> changes nothing of the connection but the \<open>updating\<close> flag, whatever
  the server answers: the record it returns goes to the caller, and the three setters
  drop it.
\<close>

lemma patch_only_toggles_flag:
  "fst (snd (patch body s e)) = s\<lparr>sc_updating := False\<rparr>"
  by (simp add: patch_def split: prod.splits)

lemma setters_keep_connection:
  "fst (snd (setPath p s e)) = (if sc_isDisposed s then s else s\<lparr>sc_updating := False\<rparr>)"
  "fst (snd (setName n s e)) = (if sc_isDisposed s then s else s\<lparr>sc_updating := False\<rparr>)"
  "fst (snd (setType t s e)) = (if sc_isDisposed s then s else s\<lparr>sc_updating := False\<rparr>)"
  by (simp_all add: setPath_def setName_def setType_def patch_def split: prod.splits sum.splits)

text \<open>
  \<open>changeKernel\<close> on a live connection with a kernel: the handle is disposed before
  the PATCH, and the same handle is still the kernel afterwards.
\<close>

lemma changeKernel_kernel_after:
  assumes "\<not> sc_isDisposed s" and "sc_kernel s = Some kc"
  shows "sc_kernel (fst (snd (changeKernel options s e))) = Some (kernel_dispose kc)"
  using assms
  by (simp add: changeKernel_def patch_def split: prod.splits sum.splits)

text \<open>
  An update that is not skipped, on a connection with a kernel: the three fields are
  overwritten, the kernel is replaced when its identity changed, and the events are the
  kernel change, if any, followed by the property changes.
\<close>

lemma update_same_kernel:
  assumes "\<not> sc_updating s" and "sc_kernel s = Some kc"
    and "m_kernel m = Some km" and "kc_id kc = k_id km"
  shows "update m s =
           (Inr (),
            s\<lparr>sc_path := m_path m, sc_name := m_name m, sc_type := m_type m,
              sc_emitted := sc_emitted s @ property_changes s m\<rparr>)"
  using assms
  by (simp add: update_def model_def kernel_differs_def handleModelChange_def emit_def
      property_changes_def Let_def)

lemma update_new_kernel:
  assumes "\<not> sc_updating s" and "sc_kernel s = Some kc"
    and "m_kernel m = Some km" and "kc_id kc \<noteq> k_id km"
    and "sc_connectToKernel s = Some connect"
    and "kc' = connect km (serverSettings s)"
    and "new = kc'\<lparr>kc_slots := kc_slots kc' @ proxied_signals\<rparr>"
  shows "update m s =
           (Inr (),
            s\<lparr>sc_path := m_path m, sc_name := m_name m, sc_type := m_type m,
              sc_kernel := Some new,
              sc_emitted := sc_emitted s @
                [KernelChanged (Some (kernel_dispose kc)) (Some new)] @
                property_changes s m\<rparr>)"
  using assms
  by (simp add: update_def model_def kernel_differs_def handleModelChange_def emit_def
      property_changes_def setupKernel_def Let_def)

lemma update_to_null_kernel:
  assumes "\<not> sc_updating s" and "sc_kernel s = Some kc" and "m_kernel m = None"
  shows "update m s =
           (Inr (),
            s\<lparr>sc_path := m_path m, sc_name := m_name m, sc_type := m_type m,
              sc_kernel := None,
              sc_emitted := sc_emitted s @
                [KernelChanged (Some (kernel_dispose kc)) None] @
                property_changes s m\<rparr>)"
  using assms
  by (simp add: update_def model_def kernel_differs_def handleModelChange_def emit_def
      property_changes_def setupKernel_def Let_def)

lemma update_keeps_identity:
  "sc_id (snd (update m s)) = sc_id s \<and> sc_isDisposed (snd (update m s)) = sc_isDisposed s"
  by (simp add: update_def model_def kernel_differs_def handleModelChange_def emit_def
      setupKernel_def Let_def split: option.splits sum.splits)

text \<open>
  The search with the updating callback is a search for the first record of the
  session's id followed by one update; a reconciliation that returns has treated every
  tracked connection as the specification says.
\<close>

lemma find_and_update_find:
  "find_and_update sessions s =
     (case find (\<lambda>r. sc_id s = m_id r) sessions of
        None \<Rightarrow> (Inr None, s)
      | Some r \<Rightarrow>
          (case update r s of
             (Inl e, s') \<Rightarrow> (Inl e, s')
           | (Inr _, s') \<Rightarrow> (Inr (Some r), s')))"
  by (induction sessions) (simp_all split: prod.splits sum.splits)

lemma reconcile_one_returns:
  assumes "fst (reconcile_one sessions s) = Inr ()"
  shows "snd (reconcile_one sessions s) = reconciled sessions s"
  using assms update_keeps_identity
  by (auto simp: reconcile_one_def reconciled_def find_and_update_find
      split: option.splits prod.splits sum.splits if_splits)

lemma each_returns:
  assumes "fst (each fn xs) = Inr ()"
  shows "snd (each fn xs) = map (\<lambda>x. snd (fn x)) xs \<and> (\<forall>x \<in> set xs. fst (fn x) = Inr ())"
  using assms
  by (induction xs) (auto split: prod.splits sum.splits)

lemma updateRunningSessions_returns:
  assumes "reg url = Some running"
    and "fst (updateRunningSessions sessions url reg) = Inr ret"
  shows "ret = sessions \<and>
         snd (updateRunningSessions sessions url reg) =
           reg(url \<mapsto> map (reconciled sessions) running)"
proof -
  from assms have ok: "fst (each (reconcile_one sessions) running) = Inr ()"
    by (auto simp: updateRunningSessions_def split: prod.splits sum.splits)
  from each_returns [OF ok]
  have "snd (each (reconcile_one sessions) running) = map (reconciled sessions) running"
    by (simp add: reconcile_one_returns)
  with assms ok show ?thesis
    by (auto simp: updateRunningSessions_def split: prod.splits sum.splits)
qed

text \<open>The outcomes of \<open>createSession\<close>, \<open>startSession\<close> and \<open>startNew\<close> by case.\<close>

lemma createSession_cases:
  "createSession mk m st =
     (case m_kernel m of
        None \<Rightarrow> Inr (null_kernel_connection m (case st of None \<Rightarrow> mk | Some x \<Rightarrow> x))
      | Some km \<Rightarrow> Inl TypeError)"
  by (simp add: createSession_def null_kernel_connection_def new_SessionConnection_def
      setupKernel_def or_default_def split: option.splits)

lemma startSession_cases:
  "startSession options e =
     ((case server e (create_request options e) of
         None \<Rightarrow> Inl NetworkError
       | Some resp \<Rightarrow>
           if rs_status resp \<noteq> 201 then Inl (ResponseError (rs_status resp) None)
           else if rs_json resp = JUnparsable then Inl SyntaxError
           else validateModel (rs_json resp)),
      e\<lparr>requests := requests e @ [create_request options e]\<rparr>)"
  by (simp add: startSession_def makeRequest_def create_request_def SESSION_SERVICE_URL_def
      response_json_def Let_def split: option.splits json_data.splits)

lemma startNew_cases:
  assumes "so_path options \<noteq> None"
  shows "startNew options e =
     ((case server e (create_request options e) of
         None \<Rightarrow> Inl NetworkError
       | Some resp \<Rightarrow>
           if rs_status resp \<noteq> 201 then Inl (ResponseError (rs_status resp) None)
           else (case rs_json resp of
                   JModel m \<Rightarrow> createSession (makeSettings e) m (so_serverSettings options)
                 | JUnparsable \<Rightarrow> Inl SyntaxError
                 | _ \<Rightarrow> Inl ValidationError)),
      e\<lparr>requests := requests e @ [create_request options e]\<rparr>)"
  using assms
  by (auto simp: startNew_def startSession_cases validateModel_def
      split: option.splits json_data.splits)

section \<open>Properties\<close>

text \<open>
  C1. The property: after a successful \<open>setPath\<close>, \<open>setName\<close>, \<open>setType\<close> or
  \<open>changeKernel\<close> on a live connection, the record returned by the PATCH has been
  passed to \<open>update\<close> and the connection's path, type and name are the record's.
  The code does not do this: \<open>_patch\<close> returns the record and no caller passes it on.
  Here session \<open>s1\<close> at path \<open>a.ipynb\<close> is asked to move to \<open>b.ipynb\<close>, the server
  answers 200 with a record at \<open>b.ipynb\<close>, the call succeeds, and the connection is
  exactly as before: path \<open>a.ipynb\<close>, nothing emitted.
\<close>

theorem setPath_leaves_path_unchanged:
  "\<not> sc_isDisposed ex_session \<and>
   server ex_env
     \<lparr>r_method = ''PATCH'',
      r_url = [''http://localhost:8888/'', ''api/sessions'', ''s1''],
      r_body = Some (PathPayload ''b.ipynb'')\<rparr> =
     Some \<lparr>rs_status = 200, rs_json = JModel ex_record\<rparr> \<and>
   m_path ex_record = ''b.ipynb'' \<and>
   fst (setPath ''b.ipynb'' ex_session ex_env) = Inr () \<and>
   fst (snd (setPath ''b.ipynb'' ex_session ex_env)) = ex_session \<and>
   sc_path (fst (snd (setPath ''b.ipynb'' ex_session ex_env))) = ''a.ipynb'' \<and>
   sc_emitted (fst (snd (setPath ''b.ipynb'' ex_session ex_env))) = []"
  by (simp add: setPath_def rest_defs ex_defs)

text \<open>
  C2. The property: \<open>changeKernel\<close> disposes the owned kernel handle before the PATCH
  completes and, on success, returns the new handle built from the returned record.
  The code disposes the handle first, but it returns \<open>this.kernel\<close> with no
  \<open>update\<close> in between. Here session \<open>s1\<close> owns kernel \<open>k1\<close>, the server answers
  200 with a record naming kernel \<open>k2\<close>, and the call returns the handle of \<open>k1\<close>,
  disposed, which is still the connection's kernel.
\<close>

theorem changeKernel_returns_disposed_handle:
  "\<not> sc_isDisposed ex_session \<and>
   sc_kernel ex_session = Some ex_kernel \<and>
   server ex_env
     \<lparr>r_method = ''PATCH'',
      r_url = [''http://localhost:8888/'', ''api/sessions'', ''s1''],
      r_body = Some (KernelPayload \<lparr>pk_id = None, pk_name = Some ''python3''\<rparr>)\<rparr> =
     Some \<lparr>rs_status = 200, rs_json = JModel ex_record\<rparr> \<and>
   m_kernel ex_record = Some \<lparr>k_id = ''k2'', k_name = ''python3''\<rparr> \<and>
   fst (changeKernel \<lparr>pk_id = None, pk_name = Some ''python3''\<rparr> ex_session ex_env) =
     Inr (Some (ex_kernel\<lparr>kc_isDisposed := True\<rparr>)) \<and>
   kc_id (ex_kernel\<lparr>kc_isDisposed := True\<rparr>) = ''k1'' \<and>
   sc_kernel (fst (snd (changeKernel \<lparr>pk_id = None, pk_name = Some ''python3''\<rparr>
                          ex_session ex_env))) =
     Some (ex_kernel\<lparr>kc_isDisposed := True\<rparr>)"
  by (simp add: changeKernel_def kernel_dispose_def rest_defs ex_defs)

text \<open>
  C3. While the \<open>updating\<close> flag of a connection is set, \<open>update(record)\<close> returns at
  once: the call succeeds, the connection is left exactly as it was (path, type, name
  and kernel unchanged) and nothing is emitted.
\<close>

theorem update_while_updating_is_noop:
  "sc_updating s \<Longrightarrow>
     update m s = (Inr (), s) \<and>
     sc_path (snd (update m s)) = sc_path s \<and>
     sc_type (snd (update m s)) = sc_type s \<and>
     sc_name (snd (update m s)) = sc_name s \<and>
     sc_kernel (snd (update m s)) = sc_kernel s \<and>
     sc_emitted (snd (update m s)) = sc_emitted s"
  by (simp add: update_def)

text \<open>The property C3 on session \<open>s1\<close> with its flag set and a record that renames it.\<close>

theorem update_while_updating_is_noop_witness:
  "sc_updating (ex_session\<lparr>sc_updating := True\<rparr>) \<and>
   update ex_record (ex_session\<lparr>sc_updating := True\<rparr>) =
     (Inr (), ex_session\<lparr>sc_updating := True\<rparr>) \<and>
   sc_path (snd (update ex_record (ex_session\<lparr>sc_updating := True\<rparr>))) = ''a.ipynb'' \<and>
   sc_emitted (snd (update ex_record (ex_session\<lparr>sc_updating := True\<rparr>))) = []"
  using update_while_updating_is_noop [of "ex_session\<lparr>sc_updating := True\<rparr>" ex_record]
  by (simp add: ex_session_def)

text \<open>
  C4. The property: \<open>updateRunningSessions\<close> visits every connection tracked at the
  endpoint, updates those with a record of their id and disposes the others unless
  already disposed. The loop does so as long as nothing throws
  (\<open>updateRunningSessions_returns\<close>), but \<open>dispose\<close> throws on a null kernel and the
  throw ends the loop. Here two connections are tracked, the first with a null kernel,
  and the list from the server is empty: the call throws a \<open>TypeError\<close>, the first
  connection is flagged disposed, and the second, which has no record either, is never
  visited and stays live.
\<close>

theorem updateRunningSessions_stops_at_throw:
  "ex_registry ''http://localhost:8888/'' = Some [ex_null_session, ex_session] \<and>
   \<not> sc_isDisposed ex_session \<and>
   fst (updateRunningSessions [] ''http://localhost:8888/'' ex_registry) = Inl TypeError \<and>
   snd (updateRunningSessions [] ''http://localhost:8888/'' ex_registry)
       ''http://localhost:8888/'' =
     Some [ex_null_session\<lparr>sc_isDisposed := True, sc_emitted := [Disposed]\<rparr>, ex_session]"
  by (simp add: updateRunningSessions_def reconcile_one_def session_defs ex_defs)

text \<open>
  C5. The property: every \<open>update(record)\<close> with the \<open>updating\<close> flag clear overwrites
  path, type and name from the record and emits one property-changed event for each of
  name, type, path that changed, in that order. The code does so on a connection with a
  kernel (\<open>update_same_kernel\<close>, \<open>update_new_kernel\<close>, \<open>update_to_null_kernel\<close>), but
  it reads \<open>this.model\<close> first, which throws on a null kernel. Here session \<open>s0\<close>
  has a null kernel and a clear flag, and the record renames it: the call throws a
  \<open>TypeError\<close>, the path is still \<open>a.ipynb\<close> and nothing is emitted.
\<close>

theorem update_null_kernel_throws:
  "\<not> sc_updating ex_null_session \<and>
   update ex_record_renamed ex_null_session = (Inl TypeError, ex_null_session) \<and>
   sc_path ex_null_session = ''a.ipynb'' \<and>
   m_path ex_record_renamed = ''b.ipynb'' \<and>
   sc_emitted ex_null_session = []"
  by (simp add: session_defs ex_defs)

text \<open>
  C6. The property: an \<open>update(record)\<close> that is not skipped emits exactly one
  kernel-changed event if and only if the kernel identity changed, a change from null
  to a kernel included. The code tests for that change, but only after reading
  \<open>this.model\<close>. Here session \<open>s0\<close> has a null kernel and a connector, and the record
  differs from it only by naming kernel \<open>k1\<close>: the call throws a \<open>TypeError\<close>, the
  kernel is still null and no kernel-changed event is emitted.
\<close>

theorem update_null_to_kernel_emits_nothing:
  "\<not> sc_updating ex_null_session \<and>
   sc_kernel ex_null_session = None \<and>
   sc_connectToKernel ex_null_session = Some ex_connector \<and>
   m_kernel ex_record_kernel = Some \<lparr>k_id = ''k1'', k_name = ''python3''\<rparr> \<and>
   fst (update ex_record_kernel ex_null_session) = Inl TypeError \<and>
   sc_kernel (snd (update ex_record_kernel ex_null_session)) = None \<and>
   sc_emitted (snd (update ex_record_kernel ex_null_session)) = []"
  by (simp add: session_defs ex_defs)

text \<open>
  C7, as amended. When the path of the options is undefined, \<open>startNew\<close> fails with
  the error \<open>Must specify a path\<close> and makes no request. When the path is defined,
  the empty string included, it makes exactly one request, the POST of
  \<open>startSession\<close>; a network failure, a status other than 201 and a body that is not
  JSON or not a session record are thrown on to the caller, and a returned record with a
  null kernel is wrapped in a new connection.
\<close>

theorem startNew_requires_defined_path:
  "(so_path options = None \<longrightarrow>
      startNew options e = (Inl (Error ''Must specify a path''), e)) \<and>
   (so_path options \<noteq> None \<longrightarrow>
      snd (startNew options e) = e\<lparr>requests := requests e @ [create_request options e]\<rparr> \<and>
      (server e (create_request options e) = None \<longrightarrow>
         fst (startNew options e) = Inl NetworkError) \<and>
      (\<forall>resp. server e (create_request options e) = Some resp \<and> rs_status resp \<noteq> 201 \<longrightarrow>
         fst (startNew options e) = Inl (ResponseError (rs_status resp) None)) \<and>
      (\<forall>resp. server e (create_request options e) = Some resp \<and> rs_status resp = 201 \<and>
           (\<forall>m. rs_json resp \<noteq> JModel m) \<longrightarrow>
         fst (startNew options e) =
           Inl (if rs_json resp = JUnparsable then SyntaxError else ValidationError)) \<and>
      (\<forall>resp m. server e (create_request options e) = Some resp \<and> rs_status resp = 201 \<and>
           rs_json resp = JModel m \<and> m_kernel m = None \<longrightarrow>
         fst (startNew options e) =
           Inr (null_kernel_connection m (or_makeSettings (so_serverSettings options) e))))"
proof (intro conjI impI allI)
  assume "so_path options = None"
  then show "startNew options e = (Inl (Error ''Must specify a path''), e)"
    by (simp add: startNew_def)
next
  assume "so_path options \<noteq> None"
  then show "snd (startNew options e) =
      e\<lparr>requests := requests e @ [create_request options e]\<rparr>"
    by (simp add: startNew_cases)
next
  assume "so_path options \<noteq> None" "server e (create_request options e) = None"
  then show "fst (startNew options e) = Inl NetworkError"
    by (simp add: startNew_cases)
next
  fix resp
  assume "so_path options \<noteq> None"
    "server e (create_request options e) = Some resp \<and> rs_status resp \<noteq> 201"
  then show "fst (startNew options e) = Inl (ResponseError (rs_status resp) None)"
    by (simp add: startNew_cases)
next
  fix resp
  assume "so_path options \<noteq> None"
    "server e (create_request options e) = Some resp \<and> rs_status resp = 201 \<and>
       (\<forall>m. rs_json resp \<noteq> JModel m)"
  then show "fst (startNew options e) =
      Inl (if rs_json resp = JUnparsable then SyntaxError else ValidationError)"
    by (simp add: startNew_cases split: json_data.splits)
next
  fix resp m
  assume "so_path options \<noteq> None"
    "server e (create_request options e) = Some resp \<and> rs_status resp = 201 \<and>
       rs_json resp = JModel m \<and> m_kernel m = None"
  then show "fst (startNew options e) =
      Inr (null_kernel_connection m (or_makeSettings (so_serverSettings options) e))"
    by (simp add: startNew_cases createSession_cases or_makeSettings_def)
qed

text \<open>
  The amended C7 without a path, and with the path \<open>c.ipynb\<close> on a server that answers
  201 with a record whose kernel is null.
\<close>

theorem startNew_requires_defined_path_witness:
  "so_path (ex_start_options\<lparr>so_path := None\<rparr>) = None \<and>
   startNew (ex_start_options\<lparr>so_path := None\<rparr>) ex_env =
     (Inl (Error ''Must specify a path''), ex_env) \<and>
   so_path (ex_start_options\<lparr>so_path := Some ''c.ipynb''\<rparr>) \<noteq> None \<and>
   requests (snd (startNew (ex_start_options\<lparr>so_path := Some ''c.ipynb''\<rparr>) ex_env)) =
     [\<lparr>r_method = ''POST'',
       r_url = [''http://localhost:8888/'', ''api/sessions''],
       r_body = Some (CreatePayload None None (Some ''c.ipynb'') [] [])\<rparr>] \<and>
   fst (startNew (ex_start_options\<lparr>so_path := Some ''c.ipynb''\<rparr>) ex_env) =
     Inr (null_kernel_connection ex_record_null ex_settings)"
proof -
  let ?o = "ex_start_options\<lparr>so_path := Some ''c.ipynb''\<rparr>"
  have r: "server ex_env (create_request ?o ex_env) =
             Some \<lparr>rs_status = 201, rs_json = JModel ex_record_null\<rparr>"
    by (simp add: create_request_def ex_env_def ex_server_def)
  have k: "m_kernel ex_record_null = None"
    by (simp add: ex_record_null_def)
  have q: "create_request ?o ex_env =
             \<lparr>r_method = ''POST'',
              r_url = [''http://localhost:8888/'', ''api/sessions''],
              r_body = Some (CreatePayload None None (Some ''c.ipynb'') [] [])\<rparr>"
    by (simp add: create_request_def or_makeSettings_def or_default_def ex_defs)
  have s: "or_makeSettings (so_serverSettings ?o) ex_env = ex_settings"
    by (simp add: or_makeSettings_def ex_start_options_def ex_env_def)
  show ?thesis
    using startNew_requires_defined_path [of "ex_start_options\<lparr>so_path := None\<rparr>" ex_env]
      startNew_requires_defined_path [of ?o ex_env] r k q s
    by (simp add: ex_start_options_def ex_env_def)
qed

text \<open>
  C7 as first stated fails on the empty path: it is not a non-empty string, yet
  \<open>startNew\<close> sends the POST and returns a connection.
\<close>

theorem startNew_accepts_empty_path:
  "so_path ex_start_options = Some [] \<and>
   requests ex_env = [] \<and>
   requests (snd (startNew ex_start_options ex_env)) =
     [\<lparr>r_method = ''POST'',
       r_url = [''http://localhost:8888/'', ''api/sessions''],
       r_body = Some (CreatePayload None None (Some []) [] [])\<rparr>] \<and>
   fst (startNew ex_start_options ex_env) =
     Inr (null_kernel_connection ex_record_null ex_settings)"
  by (simp add: startNew_def createSession_def null_kernel_connection_def
      new_SessionConnection_def setupKernel_def or_default_def rest_defs ex_defs)




text \<open>
  C9, as amended. On a connection whose kernel is null, the \<open>model\<close> getter and
  \<open>clone\<close> always throw a \<open>TypeError\<close>; \<open>update\<close> throws it, leaving the
  connection untouched, whenever the \<open>updating\<close> flag is clear; \<open>dispose\<close> throws it
  whenever the connection is not yet disposed, after setting the flag and emitting
  \<open>disposed\<close> and before clearing the signal data. With the \<open>updating\<close> flag set
  \<open>update\<close> returns, and on a disposed connection \<open>dispose\<close> returns, both without
  reading the kernel.
\<close>

theorem null_kernel_operations:
  assumes "sc_kernel s = None"
  shows "model s = Inl TypeError \<and>
         clone mk s = Inl TypeError \<and>
         (\<not> sc_updating s \<longrightarrow> update m s = (Inl TypeError, s)) \<and>
         (sc_updating s \<longrightarrow> update m s = (Inr (), s)) \<and>
         (\<not> sc_isDisposed s \<longrightarrow>
            dispose s =
              (Inl TypeError,
               s\<lparr>sc_isDisposed := True, sc_emitted := sc_emitted s @ [Disposed]\<rparr>)) \<and>
         (sc_isDisposed s \<longrightarrow> dispose s = (Inr (), s))"
  using assms by (simp add: update_def model_def clone_def dispose_def emit_def)

text \<open>
  The amended C9 on session \<open>s0\<close> as constructed, with its \<open>updating\<close> flag set, and
  disposed.
\<close>

theorem null_kernel_operations_witness:
  "sc_kernel ex_null_session = None \<and>
   model ex_null_session = Inl TypeError \<and>
   clone ex_settings ex_null_session = Inl TypeError \<and>
   update ex_record_renamed ex_null_session = (Inl TypeError, ex_null_session) \<and>
   dispose ex_null_session =
     (Inl TypeError, ex_null_session\<lparr>sc_isDisposed := True, sc_emitted := [Disposed]\<rparr>) \<and>
   update ex_record_renamed (ex_null_session\<lparr>sc_updating := True\<rparr>) =
     (Inr (), ex_null_session\<lparr>sc_updating := True\<rparr>) \<and>
   dispose (ex_null_session\<lparr>sc_isDisposed := True\<rparr>) =
     (Inr (), ex_null_session\<lparr>sc_isDisposed := True\<rparr>)"
  using null_kernel_operations [of ex_null_session ex_settings ex_record_renamed]
    null_kernel_operations [of "ex_null_session\<lparr>sc_updating := True\<rparr>" ex_settings
      ex_record_renamed]
    null_kernel_operations [of "ex_null_session\<lparr>sc_isDisposed := True\<rparr>" ex_settings
      ex_record_renamed]
  by (simp add: ex_null_session_def)

text \<open>
  C9 as first stated fails where a guard returns before the kernel is read: on a
  null-kernel connection \<open>update\<close> succeeds while the \<open>updating\<close> flag is set, and
  \<open>dispose\<close> succeeds once the connection is disposed.
\<close>

theorem null_kernel_guarded_calls_return:
  "sc_kernel (ex_null_session\<lparr>sc_updating := True\<rparr>) = None \<and>
   fst (update ex_record_renamed (ex_null_session\<lparr>sc_updating := True\<rparr>)) = Inr () \<and>
   sc_kernel (ex_null_session\<lparr>sc_isDisposed := True\<rparr>) = None \<and>
   fst (dispose (ex_null_session\<lparr>sc_isDisposed := True\<rparr>)) = Inr ()"
  by (simp add: update_def dispose_def ex_null_session_def)

text \<open>
  C10. \<open>createSession\<close> constructs the connection with no kernel connector. For a
  record with a kernel the construction throws a \<open>TypeError\<close>; for a record with a
  null kernel it returns a connection with a null kernel and no connector; and nothing
  else is ever returned. \<open>connectTo\<close>, when no tracked connection has the record's
  id, and \<open>startNew\<close>, when the server answers 201 with the record, return what
  \<open>createSession\<close> returns.
\<close>

theorem creation_path_has_no_connector:
  "(m_kernel m \<noteq> None \<longrightarrow> createSession mk m st = Inl TypeError) \<and>
   (m_kernel m = None \<longrightarrow>
      createSession mk m st =
        Inr (null_kernel_connection m (case st of None \<Rightarrow> mk | Some x \<Rightarrow> x))) \<and>
   (\<forall>c. createSession mk m st = Inr c \<longrightarrow>
      sc_connectToKernel c = None \<and> sc_kernel c = None) \<and>
   (find (\<lambda>v. sc_id v = m_id m)
        (running_at reg (baseUrl (case st of None \<Rightarrow> mk | Some x \<Rightarrow> x))) = None \<longrightarrow>
      connectTo mk reg m st = createSession mk m st) \<and>
   (so_path options \<noteq> None \<and>
    server e (create_request options e) = Some \<lparr>rs_status = 201, rs_json = JModel m\<rparr> \<longrightarrow>
      fst (startNew options e) = createSession (makeSettings e) m (so_serverSettings options))"
proof (intro conjI impI allI)
  assume "m_kernel m \<noteq> None"
  then show "createSession mk m st = Inl TypeError"
    by (auto simp: createSession_cases)
next
  assume "m_kernel m = None"
  then show "createSession mk m st =
      Inr (null_kernel_connection m (case st of None \<Rightarrow> mk | Some x \<Rightarrow> x))"
    by (simp add: createSession_cases)
next
  fix c assume c: "createSession mk m st = Inr c"
  then show "sc_connectToKernel c = None"
    by (auto simp: createSession_cases null_kernel_connection_def split: option.splits)
  from c show "sc_kernel c = None"
    by (auto simp: createSession_cases null_kernel_connection_def split: option.splits)
next
  assume "find (\<lambda>v. sc_id v = m_id m)
      (running_at reg (baseUrl (case st of None \<Rightarrow> mk | Some x \<Rightarrow> x))) = None"
  then show "connectTo mk reg m st = createSession mk m st"
    by (simp add: connectTo_def createSession_cases split: option.splits)
next
  assume "so_path options \<noteq> None \<and>
    server e (create_request options e) = Some \<lparr>rs_status = 201, rs_json = JModel m\<rparr>"
  then show "fst (startNew options e) =
      createSession (makeSettings e) m (so_serverSettings options)"
    by (simp add: startNew_cases)
qed

text \<open>
  The property C10 on a record with a kernel, through \<open>createSession\<close>, \<open>connectTo\<close>
  with nothing tracked and \<open>startNew\<close>, and on a record with a null kernel.
\<close>

theorem creation_path_has_no_connector_witness:
  "m_kernel ex_record \<noteq> None \<and>
   createSession ex_settings ex_record None = Inl TypeError \<and>
   connectTo ex_settings Map.empty ex_record None = Inl TypeError \<and>
   fst (startNew (ex_start_options\<lparr>so_path := Some ''b.ipynb''\<rparr>)
          (ex_env\<lparr>server := ex_server_kernel\<rparr>)) = Inl TypeError \<and>
   m_kernel ex_record_null = None \<and>
   createSession ex_settings ex_record_null None =
     Inr (null_kernel_connection ex_record_null ex_settings) \<and>
   sc_connectToKernel (null_kernel_connection ex_record_null ex_settings) = None"
proof -
  let ?o = "ex_start_options\<lparr>so_path := Some ''b.ipynb''\<rparr>"
  let ?e = "ex_env\<lparr>server := ex_server_kernel\<rparr>"
  have miss: "find (\<lambda>v. sc_id v = m_id ex_record)
                (running_at Map.empty
                   (baseUrl (case None of None \<Rightarrow> ex_settings | Some x \<Rightarrow> x))) = None"
    by (simp add: running_at_def)
  have r: "so_path ?o \<noteq> None \<and>
           server ?e (create_request ?o ?e) =
             Some \<lparr>rs_status = 201, rs_json = JModel ex_record\<rparr>"
    by (simp add: ex_server_kernel_def)
  have k: "m_kernel ex_record \<noteq> None" "m_kernel ex_record_null = None"
    by (simp_all add: ex_record_def ex_record_null_def)
  have mk: "makeSettings ?e = ex_settings" "so_serverSettings ?o = None"
    by (simp_all add: ex_env_def ex_start_options_def)
  show ?thesis
    using creation_path_has_no_connector [of ex_record ex_settings None Map.empty ?o ?e]
      creation_path_has_no_connector [of ex_record_null ex_settings None Map.empty ?o ?e]
      miss r k mk
    by (simp add: null_kernel_connection_def)
qed

end
